theory Spec2Isabelle
  imports Complex_Main "HOL-Library.Sublist" "HOL-Library.Log_Nat"
begin

section \<open>JavaScript values\<close>

text \<open>
  Both screens read what \<^verbatim>\<open>res.json()\<close> returns, which TypeScript types as
  \<^verbatim>\<open>any\<close>: the interfaces \<^verbatim>\<open>Subscription\<close> and \<^verbatim>\<open>Usage\<close> describe what the
  backend is expected to send, they are not checked at run time. The data is therefore
  modelled as an untyped JavaScript value.

  A number is an IEEE-754 double: \<open>Fin x\<close> is the finite double whose exact value is
  the rational \<open>x\<close> (\<open>Fin 0\<close> is the positive zero), \<open>NegZero\<close> is the negative
  zero, and there are the two infinities and NaN. An object is an association list read
  by its first matching key.
\<close>

datatype jsnum = Fin rat | NegZero | PosInfinity | NegInfinity | NaN

datatype jsval =
    Undefined
  | Null
  | JBool bool
  | JNum jsnum
  | JStr string
  | JArr "jsval list"
  | JObj "(string \<times> jsval) list"

datatype exn = TypeError

text \<open>ToBoolean: what \<^verbatim>\<open>x ? a : b\<close>, \<^verbatim>\<open>x && y\<close>, \<^verbatim>\<open>!x\<close> and \<^verbatim>\<open>!!x\<close> test.\<close>

fun truthy :: "jsval \<Rightarrow> bool" where
  "truthy Undefined = False"
| "truthy Null = False"
| "truthy (JBool b) = b"
| "truthy (JNum n) = (n \<noteq> Fin 0 \<and> n \<noteq> NegZero \<and> n \<noteq> NaN)"
| "truthy (JStr s) = (s \<noteq> [])"
| "truthy (JArr xs) = True"
| "truthy (JObj kvs) = True"

text \<open>
  Property read \<^verbatim>\<open>v.p\<close>: a TypeError on \<^verbatim>\<open>undefined\<close> and \<^verbatim>\<open>null\<close>, the field or
  \<^verbatim>\<open>undefined\<close> on an object. None of the property names the screens read exists on a
  boolean, number, string or array, so the read gives \<^verbatim>\<open>undefined\<close> there.
\<close>

fun get :: "jsval \<Rightarrow> string \<Rightarrow> exn + jsval" where
  "get Undefined p = Inl TypeError"
| "get Null p = Inl TypeError"
| "get (JObj kvs) p = (case map_of kvs p of None \<Rightarrow> Inr Undefined | Some v \<Rightarrow> Inr v)"
| "get v p = Inr Undefined"

text \<open>Optional chaining \<^verbatim>\<open>v?.p\<close>: \<^verbatim>\<open>undefined\<close> where \<^verbatim>\<open>v.p\<close> would throw.\<close>

definition get_opt :: "jsval \<Rightarrow> string \<Rightarrow> jsval" where
  "get_opt v p = (case get v p of Inl e \<Rightarrow> Undefined | Inr x \<Rightarrow> x)"

subsection \<open>Arithmetic\<close>

text \<open>
  The operators \<^verbatim>\<open>/\<close> and \<^verbatim>\<open>*\<close> compute the exact result and round it to the
  nearest double, ties to the even significand (the default rounding of IEEE-754
  binary64, the only one JavaScript has).

  \<open>ilog2 a\<close> is the binary exponent of a positive rational \<open>a\<close>: the integer
  \<open>k\<close> with \<open>2 powi k \<le> a < 2 powi (k + 1)\<close> (lemma \<open>ilog2_bounds\<close> below).
\<close>

definition ilog2 :: "rat \<Rightarrow> int" where
  "ilog2 a = (if 1 \<le> a then bitlen \<lfloor>a\<rfloor> - 1 else - bitlen (\<lceil>1 / a\<rceil> - 1))"

definition round_half_even :: "rat \<Rightarrow> int" where
  "round_half_even x =
     (if x - of_int \<lfloor>x\<rfloor> < 1 / 2 then \<lfloor>x\<rfloor>
      else if 1 / 2 < x - of_int \<lfloor>x\<rfloor> then \<lfloor>x\<rfloor> + 1
      else if even \<lfloor>x\<rfloor> then \<lfloor>x\<rfloor> else \<lfloor>x\<rfloor> + 1)"

text \<open>
  The doubles around a positive \<open>a\<close> are the multiples of \<open>2 powi spacing a\<close>: a
  significand of 53 bits, and the fixed spacing \<open>2 powi (- 1074)\<close> of the subnormal
  range.
\<close>

definition spacing :: "rat \<Rightarrow> int" where
  "spacing a = max (ilog2 a - 52) (- 1074)"

definition round_magnitude :: "rat \<Rightarrow> rat" where
  "round_magnitude a = of_int (round_half_even (a / 2 powi spacing a)) * 2 powi spacing a"

text \<open>
  Rounding an exact result: a rounded magnitude of \<open>2 powi 1024\<close> or more overflows
  to an infinity, one of zero underflows to the zero of the result's sign.
\<close>

definition round_double :: "rat \<Rightarrow> jsnum" where
  "round_double q =
     (if q = 0 then Fin 0
      else if 2 powi 1024 \<le> round_magnitude \<bar>q\<bar>
        then (if 0 < q then PosInfinity else NegInfinity)
      else if round_magnitude \<bar>q\<bar> = 0 then (if 0 < q then Fin 0 else NegZero)
      else Fin (if 0 < q then round_magnitude \<bar>q\<bar> else - round_magnitude \<bar>q\<bar>))"

fun negative :: "jsnum \<Rightarrow> bool" where
  "negative (Fin a) = (a < 0)"
| "negative NegZero = True"
| "negative NegInfinity = True"
| "negative PosInfinity = False"
| "negative NaN = False"

fun magnitude :: "jsnum \<Rightarrow> rat" where
  "magnitude (Fin a) = a"
| "magnitude n = 0"

definition is_zero :: "jsnum \<Rightarrow> bool" where
  "is_zero n = (n = Fin 0 \<or> n = NegZero)"

definition is_infinity :: "jsnum \<Rightarrow> bool" where
  "is_infinity n = (n = PosInfinity \<or> n = NegInfinity)"

definition signed_zero :: "bool \<Rightarrow> jsnum" where
  "signed_zero neg = (if neg then NegZero else Fin 0)"

definition signed_infinity :: "bool \<Rightarrow> jsnum" where
  "signed_infinity neg = (if neg then NegInfinity else PosInfinity)"

text \<open>
  Division: NaN from a NaN operand, from infinity by infinity and from zero by zero; an
  infinity from an infinite dividend or a zero divisor; a zero from a zero dividend or an
  infinite divisor; the sign of these is the exclusive or of the operands' signs.
  Otherwise the rounded quotient.
\<close>

definition js_div :: "jsnum \<Rightarrow> jsnum \<Rightarrow> jsnum" where
  "js_div x y =
     (if x = NaN \<or> y = NaN then NaN
      else if is_infinity x \<and> is_infinity y then NaN
      else if is_zero x \<and> is_zero y then NaN
      else if is_infinity x \<or> is_zero y then signed_infinity (negative x \<noteq> negative y)
      else if is_zero x \<or> is_infinity y then signed_zero (negative x \<noteq> negative y)
      else round_double (magnitude x / magnitude y))"

text \<open>Multiplication: NaN from a NaN operand and from infinity times zero.\<close>

definition js_mul :: "jsnum \<Rightarrow> jsnum \<Rightarrow> jsnum" where
  "js_mul x y =
     (if x = NaN \<or> y = NaN then NaN
      else if is_infinity x \<and> is_zero y \<or> is_zero x \<and> is_infinity y then NaN
      else if is_infinity x \<or> is_infinity y then signed_infinity (negative x \<noteq> negative y)
      else if is_zero x \<or> is_zero y then signed_zero (negative x \<noteq> negative y)
      else round_double (magnitude x * magnitude y))"

text \<open>
  ToNumber, which \<^verbatim>\<open>Number(v)\<close> and the operands of \<^verbatim>\<open>/\<close> go through. The numeric
  value of a string (the StringToNumber grammar of ECMAScript) is the parameter
  \<open>parse\<close>. A plain object converts to the string \<^verbatim>\<open>[object Object]\<close> and so to NaN;
  an array converts to its elements joined by commas, which is a number only when the
  array is empty (the empty string, 0) or has one element. A number in an array goes
  through its string, which loses the sign of a zero.
\<close>

fun ToNumber :: "(string \<Rightarrow> jsnum) \<Rightarrow> jsval \<Rightarrow> jsnum" where
  "ToNumber parse Undefined = NaN"
| "ToNumber parse Null = Fin 0"
| "ToNumber parse (JBool b) = (if b then Fin 1 else Fin 0)"
| "ToNumber parse (JNum n) = n"
| "ToNumber parse (JStr s) = parse s"
| "ToNumber parse (JObj kvs) = NaN"
| "ToNumber parse (JArr []) = Fin 0"
| "ToNumber parse (JArr [Undefined]) = Fin 0"
| "ToNumber parse (JArr [Null]) = Fin 0"
| "ToNumber parse (JArr [JBool b]) = NaN"
| "ToNumber parse (JArr [JNum n]) = (if n = NegZero then Fin 0 else n)"
| "ToNumber parse (JArr [JStr s]) = parse s"
| "ToNumber parse (JArr [JObj kvs]) = NaN"
| "ToNumber parse (JArr [JArr xs]) = ToNumber parse (JArr xs)"
| "ToNumber parse (JArr (x # y # zs)) = NaN"

section \<open>View-model derivation of the subscription manager\<close>

text \<open>An icon element: the component and its \<^verbatim>\<open>className\<close>.\<close>

datatype icon = CheckCircle string | XCircle string | AlertCircle string

text \<open>The \<^verbatim>\<open>switch\<close> compares with \<^verbatim>\<open>===\<close>; the \<^verbatim>\<open>default\<close> arm takes every other value.\<close>

definition getStatusIcon :: "jsval \<Rightarrow> icon" where
  "getStatusIcon status =
     (if status = JStr ''active'' then CheckCircle ''w-5 h-5 text-green-500''
      else if status = JStr ''canceled'' then XCircle ''w-5 h-5 text-red-500''
      else if status = JStr ''past_due'' then AlertCircle ''w-5 h-5 text-yellow-500''
      else AlertCircle ''w-5 h-5 text-gray-500'')"

definition getStatusColor :: "jsval \<Rightarrow> string" where
  "getStatusColor status =
     (if status = JStr ''active'' then ''text-green-600 bg-green-100''
      else if status = JStr ''canceled'' then ''text-red-600 bg-red-100''
      else if status = JStr ''past_due'' then ''text-yellow-600 bg-yellow-100''
      else ''text-gray-600 bg-gray-100'')"

text \<open>
  The width of the usage bar, a CSS percentage: \<open>Percent n\<close> is the decimal string
  of the number \<open>n\<close> followed by a percent sign, so \<open>Percent (Fin 100)\<close> is
  \<^verbatim>\<open>'100%'\<close>. The template literal \<^verbatim>\<open>`${n}%`\<close> prints the negative zero as
  \<^verbatim>\<open>0\<close>.
\<close>

datatype css_width = Percent jsnum

definition template :: "jsnum \<Rightarrow> css_width" where
  "template n = Percent (if n = NegZero then Fin 0 else n)"

definition progress_width :: "(string \<Rightarrow> jsnum) \<Rightarrow> jsval \<Rightarrow> jsval \<Rightarrow> css_width" where
  "progress_width parse used limit =
     (if limit = JStr ''unlimited'' then Percent (Fin 100)
      else template (js_mul (js_div (ToNumber parse used) (ToNumber parse limit)) (Fin 100)))"


section \<open>The subscription manager\<close>

subsection \<open>State\<close>

text \<open>
  What the component function reads on each render: the two query results as it
  destructures them, its own \<^verbatim>\<open>isCancelling\<close> flag and the \<^verbatim>\<open>isPending\<close> flag of each
  mutation. An error is an \<^verbatim>\<open>Error\<close> object (here its message) or \<^verbatim>\<open>null\<close>.
  Two logs record what the component does to the outside: the HTTP requests its mutation
  functions issue, and the keys it passes to \<^verbatim>\<open>queryClient.invalidateQueries\<close>.
\<close>

record http_request =
  http_method :: string
  url :: string
  headers :: "(string \<times> string) list"
  body :: "jsval option"

record manager =
  subscription :: jsval
  subscriptionLoading :: bool
  subscriptionError :: "string option"
  usage :: jsval
  usageLoading :: bool
  isCancelling :: bool
  syncPending :: bool
  cancelPending :: bool
  reactivatePending :: bool
  requests :: "http_request list"
  invalidated :: "string list list"

subsection \<open>Queries\<close>

text \<open>How a promise settles: fulfilled with a value, or rejected with an error.\<close>

datatype outcome = Succeeded jsval | Failed string

text \<open>The first render: \<^verbatim>\<open>useState(false)\<close>, both queries fetching with no data yet.\<close>

definition initial :: manager where
  "initial =
     \<lparr>subscription = Undefined, subscriptionLoading = True, subscriptionError = None,
      usage = Undefined, usageLoading = True, isCancelling = False,
      syncPending = False, cancelPending = False, reactivatePending = False,
      requests = [], invalidated = []\<rparr>"

text \<open>
  A query settles, after its retries (\<^verbatim>\<open>retry: 2\<close>), with data or with an error, and
  its \<^verbatim>\<open>isLoading\<close> flag falls for good. A failure keeps the data the query had; a
  query function that resolves to \<^verbatim>\<open>undefined\<close> counts as a failure in the query
  library. The component does not read the error of the usage query.
\<close>

fun subscription_settled :: "outcome \<Rightarrow> manager \<Rightarrow> manager" where
  "subscription_settled (Succeeded d) st =
     (if d = Undefined
      then st\<lparr>subscriptionLoading := False, subscriptionError := Some ''undefined data''\<rparr>
      else st\<lparr>subscription := d, subscriptionLoading := False, subscriptionError := None\<rparr>)"
| "subscription_settled (Failed e) st =
     st\<lparr>subscriptionLoading := False, subscriptionError := Some e\<rparr>"

fun usage_settled :: "outcome \<Rightarrow> manager \<Rightarrow> manager" where
  "usage_settled (Succeeded d) st =
     (if d = Undefined then st\<lparr>usageLoading := False\<rparr>
      else st\<lparr>usage := d, usageLoading := False\<rparr>)"
| "usage_settled (Failed e) st = st\<lparr>usageLoading := False\<rparr>"

subsection \<open>Mutations\<close>

datatype mutation = Sync | Cancel | Reactivate

text \<open>
  The \<^verbatim>\<open>mutationFn\<close> of each mutation. The body is the value handed to
  \<^verbatim>\<open>JSON.stringify\<close>; the text it is serialised to is not modelled.
\<close>

fun mutationFn :: "mutation \<Rightarrow> jsval \<Rightarrow> http_request" where
  "mutationFn Sync v =
     \<lparr>http_method = ''POST'', url = ''/api/subscriptions/sync'', headers = [], body = None\<rparr>"
| "mutationFn Cancel subscriptionId =
     \<lparr>http_method = ''POST'', url = ''/api/subscriptions/cancel'',
      headers = [(''Content-Type'', ''application/json'')],
      body = Some (JObj [(''subscription_id'', subscriptionId)])\<rparr>"
| "mutationFn Reactivate subscriptionId =
     \<lparr>http_method = ''POST'', url = ''/api/subscriptions/reactivate'',
      headers = [(''Content-Type'', ''application/json'')],
      body = Some (JObj [(''subscription_id'', subscriptionId)])\<rparr>"

fun isPending :: "mutation \<Rightarrow> manager \<Rightarrow> bool" where
  "isPending Sync st = syncPending st"
| "isPending Cancel st = cancelPending st"
| "isPending Reactivate st = reactivatePending st"

fun set_pending :: "mutation \<Rightarrow> bool \<Rightarrow> manager \<Rightarrow> manager" where
  "set_pending Sync b st = st\<lparr>syncPending := b\<rparr>"
| "set_pending Cancel b st = st\<lparr>cancelPending := b\<rparr>"
| "set_pending Reactivate b st = st\<lparr>reactivatePending := b\<rparr>"

definition invalidateQueries :: "string list \<Rightarrow> manager \<Rightarrow> manager" where
  "invalidateQueries queryKey st = st\<lparr>invalidated := invalidated st @ [queryKey]\<rparr>"

text \<open>
  A cached query is marked stale by an invalidation whose key is a prefix of the
  query's own key (the matching rule of the query library).
\<close>

definition is_stale :: "manager \<Rightarrow> string list \<Rightarrow> bool" where
  "is_stale st queryKey = list_ex (\<lambda>k. prefix k queryKey) (invalidated st)"

fun onSuccess :: "mutation \<Rightarrow> manager \<Rightarrow> manager" where
  "onSuccess Sync st =
     invalidateQueries [''subscription-usage''] (invalidateQueries [''subscription''] st)"
| "onSuccess Cancel st =
     (invalidateQueries [''subscription-usage'']
        (invalidateQueries [''subscription''] st))\<lparr>isCancelling := False\<rparr>"
| "onSuccess Reactivate st =
     invalidateQueries [''subscription-usage''] (invalidateQueries [''subscription''] st)"

text \<open>
  \<^verbatim>\<open>mutation.mutate(v)\<close>: the mutation becomes pending and its function runs once. The
  source gives no \<^verbatim>\<open>retry\<close> option to \<^verbatim>\<open>useMutation\<close> and the library's default for a
  mutation is no retry, so a rejection settles it. When it settles, the pending flag
  falls; \<^verbatim>\<open>onSuccess\<close> runs on a fulfilled promise only, and no mutation here has an
  \<^verbatim>\<open>onError\<close> or \<^verbatim>\<open>onSettled\<close> callback.
\<close>

definition mutate :: "mutation \<Rightarrow> jsval \<Rightarrow> manager \<Rightarrow> manager" where
  "mutate m v st = (set_pending m True st)\<lparr>requests := requests st @ [mutationFn m v]\<rparr>"

fun settle :: "mutation \<Rightarrow> outcome \<Rightarrow> manager \<Rightarrow> manager" where
  "settle m (Succeeded d) st = onSuccess m (set_pending m False st)"
| "settle m (Failed e) st = set_pending m False st"

definition handleCancel :: "manager \<Rightarrow> manager" where
  "handleCancel st =
     (if truthy (get_opt (subscription st) ''stripe_subscription_id'')
      then mutate Cancel (get_opt (subscription st) ''stripe_subscription_id'')
             (st\<lparr>isCancelling := True\<rparr>)
      else st)"

definition handleReactivate :: "manager \<Rightarrow> manager" where
  "handleReactivate st =
     (if truthy (get_opt (subscription st) ''stripe_subscription_id'')
      then mutate Reactivate (get_opt (subscription st) ''stripe_subscription_id'') st
      else st)"

definition handleSync :: "manager \<Rightarrow> manager" where
  "handleSync st = mutate Sync Undefined st"

subsection \<open>Rendering\<close>

text \<open>
  The element tree the component function returns, reduced to what decides which parts
  are shown: CSS classes other than the status colours, and the formatting of dates and
  of the capitalised status, are left out (the values they are computed from are kept).
  A conditional section that is not rendered is \<open>None\<close>. The function throws where
  the source's expressions do; what the framework does with the returned tree is not
  modelled.
\<close>

record button =
  disabled :: bool
  label :: string

record subscription_card =
  badge_class :: string
  badge_icon :: icon
  status_text :: jsval
  shown_subscription_id :: jsval
  shown_price_id :: jsval
  shown_period_start :: jsval
  shown_period_end :: jsval
  cancel_button :: "button option"
  reactivate_button :: "button option"

datatype subscription_section =
    CurrentSubscription subscription_card
  | NoActiveSubscription

datatype remaining_text = UnlimitedAvailable | ConnectionsRemaining jsval

record usage_card =
  shown_used :: jsval
  shown_limit :: jsval
  bar_width :: css_width
  remaining :: remaining_text

record billing_card =
  next_billing_date :: jsval
  billing_class :: string
  billing_status :: string
  latest_invoice :: "jsval option"

record layout =
  sync_button :: button
  subscription_part :: subscription_section
  usage_part :: "usage_card option"
  billing_part :: "billing_card option"

datatype manager_view = LoadingView | ErrorView | Layout layout

definition and_then :: "exn + 'a \<Rightarrow> ('a \<Rightarrow> exn + 'b) \<Rightarrow> exn + 'b" where
  "and_then r f = (case r of Inl e \<Rightarrow> Inl e | Inr x \<Rightarrow> f x)"

definition render_actions :: "manager \<Rightarrow> jsval \<Rightarrow> button option \<times> button option" where
  "render_actions st status =
     (if status = JStr ''active''
      then Some \<lparr>disabled = (isCancelling st \<or> cancelPending st),
                 label = (if cancelPending st then ''Cancelling...''
                          else ''Cancel Subscription'')\<rparr>
      else None,
      if status = JStr ''canceled''
      then Some \<lparr>disabled = reactivatePending st,
                 label = (if reactivatePending st then ''Reactivating...''
                          else ''Reactivate Subscription'')\<rparr>
      else None)"

definition render_subscription :: "manager \<Rightarrow> exn + subscription_section" where
  "render_subscription st =
     (if truthy (subscription st) then
        and_then (get (subscription st) ''status'') (\<lambda>status.
        and_then (get (subscription st) ''stripe_subscription_id'') (\<lambda>sid.
        and_then (get (subscription st) ''price_id'') (\<lambda>pid.
        and_then (get (subscription st) ''current_period_start'') (\<lambda>ps.
        and_then (get (subscription st) ''current_period_end'') (\<lambda>pe.
          Inr (CurrentSubscription
            \<lparr>badge_class = getStatusColor status,
             badge_icon = getStatusIcon status,
             status_text = status,
             shown_subscription_id = sid,
             shown_price_id = pid,
             shown_period_start = ps,
             shown_period_end = pe,
             cancel_button = fst (render_actions st status),
             reactivate_button = snd (render_actions st status)\<rparr>))))))
      else Inr NoActiveSubscription)"

definition render_usage :: "(string \<Rightarrow> jsnum) \<Rightarrow> manager \<Rightarrow> exn + usage_card option" where
  "render_usage parse st =
     (if truthy (get_opt (usage st) ''has_subscription'') then
        and_then (get (usage st) ''usage'') (\<lambda>u.
          if truthy u then
            and_then (get u ''email_connections'') (\<lambda>ec.
            and_then (get ec ''used'') (\<lambda>used.
            and_then (get ec ''limit'') (\<lambda>limit.
            and_then (get ec ''remaining'') (\<lambda>rem.
              Inr (Some
                \<lparr>shown_used = used,
                 shown_limit = limit,
                 bar_width = progress_width parse used limit,
                 remaining = (if rem = JStr ''unlimited'' then UnlimitedAvailable
                              else ConnectionsRemaining rem)\<rparr>)))))
          else Inr None)
      else Inr None)"

text \<open>
  The billing section calls \<^verbatim>\<open>subscription.status.charAt(0)\<close>: a TypeError unless the
  status is a string (a value parsed from JSON has no method of its own).
\<close>

definition render_billing :: "manager \<Rightarrow> exn + billing_card option" where
  "render_billing st =
     (if truthy (subscription st) then
        and_then (get (subscription st) ''current_period_end'') (\<lambda>pe.
        and_then (get (subscription st) ''status'') (\<lambda>status.
          case status of
            JStr s \<Rightarrow>
              and_then (get (subscription st) ''latest_invoice_id'') (\<lambda>inv.
                Inr (Some
                  \<lparr>next_billing_date = pe,
                   billing_class = getStatusColor status,
                   billing_status = s,
                   latest_invoice = (if truthy inv then Some inv else None)\<rparr>))
          | _ \<Rightarrow> Inl TypeError))
      else Inr None)"

definition render :: "(string \<Rightarrow> jsnum) \<Rightarrow> manager \<Rightarrow> exn + manager_view" where
  "render parse st =
     (if subscriptionLoading st \<or> usageLoading st then Inr LoadingView
      else if subscriptionError st \<noteq> None then Inr ErrorView
      else
        and_then (render_subscription st) (\<lambda>s.
        and_then (render_usage parse st) (\<lambda>u.
        and_then (render_billing st) (\<lambda>b.
          Inr (Layout
            \<lparr>sync_button = \<lparr>disabled = syncPending st, label = ''Sync from Stripe''\<rparr>,
             subscription_part = s,
             usage_part = u,
             billing_part = b\<rparr>)))))"

section \<open>The checkout-success screen\<close>

text \<open>
  The screen's state: the \<^verbatim>\<open>session_id\<close> query parameter (\<^verbatim>\<open>searchParams.get\<close> gives
  a string or \<^verbatim>\<open>null\<close>), its own \<^verbatim>\<open>isLoading\<close> flag, and the result of the session
  query as it destructures it. The URL is fixed for the life of the screen.
\<close>

record checkout =
  sessionId :: "string option"
  isLoading :: bool
  session :: jsval
  error :: "string option"

text \<open>\<^verbatim>\<open>enabled: !!sessionId\<close>: \<^verbatim>\<open>null\<close> and the empty string disable the query.\<close>

definition enabled :: "checkout \<Rightarrow> bool" where
  "enabled st = (case sessionId st of None \<Rightarrow> False | Some s \<Rightarrow> s \<noteq> [])"

text \<open>The effect on \<^verbatim>\<open>[session, error]\<close>, the only place that changes \<^verbatim>\<open>isLoading\<close>.\<close>

definition effect :: "checkout \<Rightarrow> checkout" where
  "effect st =
     (if truthy (session st) \<or> error st \<noteq> None then st\<lparr>isLoading := False\<rparr> else st)"

text \<open>
  The first render, \<^verbatim>\<open>useState(true)\<close> and a query with no data yet, followed by the
  effect.
\<close>

definition mount :: "string option \<Rightarrow> checkout" where
  "mount sid = effect \<lparr>sessionId = sid, isLoading = True, session = Undefined, error = None\<rparr>"

text \<open>
  The query settles, after its retries, with data or with an error; a disabled query
  never fetches, so nothing settles. The query library turns a query function that
  resolves to \<^verbatim>\<open>undefined\<close> into an error. The component renders again and the effect
  runs.
\<close>

fun query_settled :: "outcome \<Rightarrow> checkout \<Rightarrow> checkout" where
  "query_settled (Succeeded d) st =
     (if \<not> enabled st then st
      else if d = Undefined then effect (st\<lparr>error := Some ''undefined data''\<rparr>)
      else effect (st\<lparr>session := d, error := None\<rparr>))"
| "query_settled (Failed e) st =
     (if \<not> enabled st then st else effect (st\<lparr>error := Some e\<rparr>))"

text \<open>The screen after a sequence of fetches (the first, then any refetch) has settled.\<close>

definition after_fetches :: "string option \<Rightarrow> outcome list \<Rightarrow> checkout" where
  "after_fetches sid outcomes = foldl (\<lambda>st out. query_settled out st) (mount sid) outcomes"

text \<open>
  The payment details: the amount is \<^verbatim>\<open>session.amount_total / 100\<close> (shown with two
  decimals), the currency is shown in upper case. \<^verbatim>\<open>session.currency.toUpperCase()\<close>
  is a TypeError unless the currency is a string.
\<close>

record payment_details =
  amount :: jsnum
  currency :: string
  payment_status :: jsval
  customer_email :: jsval

datatype checkout_view = CheckoutLoading | PaymentFailed | PaymentSuccessful payment_details

definition render_checkout :: "(string \<Rightarrow> jsnum) \<Rightarrow> checkout \<Rightarrow> exn + checkout_view" where
  "render_checkout parse st =
     (if isLoading st then Inr CheckoutLoading
      else if error st \<noteq> None \<or> \<not> truthy (session st) then Inr PaymentFailed
      else
        and_then (get (session st) ''amount_total'') (\<lambda>total.
        and_then (get (session st) ''currency'') (\<lambda>cur.
          case cur of
            JStr c \<Rightarrow>
              and_then (get (session st) ''payment_status'') (\<lambda>ps.
              and_then (get (session st) ''customer_email'') (\<lambda>email.
                Inr (PaymentSuccessful
                  \<lparr>amount = js_div (ToNumber parse total) (Fin 100),
                   currency = c,
                   payment_status = ps,
                   customer_email = email\<rparr>)))
          | _ \<Rightarrow> Inl TypeError)))"

section \<open>Properties\<close>

subsection \<open>Auxiliary facts\<close>

text \<open>Rounding to a double.\<close>

lemma ilog2_bounds:
  assumes "0 < a"
  shows "2 powi ilog2 a \<le> a" and "a < 2 powi (ilog2 a + 1)"
proof -
  have "2 powi ilog2 a \<le> a \<and> a < 2 powi (ilog2 a + 1)"
  proof (cases "1 \<le> a")
    case True
    define n where "n = \<lfloor>a\<rfloor>"
    have n: "0 < n" using True by (simp add: n_def)
    from bitlen_bounds [OF n] have lo: "2 ^ nat (bitlen n - 1) \<le> n"
      and hi: "n < 2 ^ nat (bitlen n)" by simp_all
    have b: "1 \<le> bitlen n" using n by (simp add: bitlen_alt_def)
    have il: "ilog2 a = bitlen n - 1" using True by (simp add: ilog2_def n_def)
    have "(2::rat) powi (bitlen n - 1) = of_int (2 ^ nat (bitlen n - 1))"
      using b by (simp add: power_int_def)
    also have "\<dots> \<le> of_int n" using lo by (simp only: of_int_le_iff)
    also have "\<dots> \<le> a" by (simp add: n_def)
    finally have 1: "2 powi ilog2 a \<le> a" by (simp add: il)
    have "n + 1 \<le> 2 ^ nat (bitlen n)" using hi by simp
    then have "(of_int (n + 1) :: rat) \<le> of_int (2 ^ nat (bitlen n))"
      by (simp only: of_int_le_iff)
    moreover have "a < of_int (n + 1)" unfolding n_def by simp linarith
    moreover have "(2::rat) powi (bitlen n) = of_int (2 ^ nat (bitlen n))"
      using b by (simp add: power_int_def)
    ultimately have 2: "a < 2 powi (ilog2 a + 1)" by (simp add: il)
    from 1 2 show ?thesis ..
  next
    case False
    define y where "y = 1 / a"
    define n where "n = \<lceil>y\<rceil> - 1"
    have y: "1 < y" using False assms by (simp add: y_def)
    have n: "0 < n" using y unfolding n_def by linarith
    have ny: "of_int n < y" "y \<le> of_int n + 1" unfolding n_def by (simp; linarith)+
    from bitlen_bounds [OF n] have lo: "2 ^ nat (bitlen n - 1) \<le> n"
      and hi: "n < 2 ^ nat (bitlen n)" by simp_all
    have b: "1 \<le> bitlen n" using n by (simp add: bitlen_alt_def)
    have il: "ilog2 a = - bitlen n" using False by (simp add: ilog2_def n_def y_def)
    have "2 powi ilog2 a = inverse ((2::rat) powi bitlen n)"
      unfolding il by (rule power_int_minus)
    also have "(2::rat) powi bitlen n = 2 ^ nat (bitlen n)"
      using b by (simp add: power_int_def)
    finally have p1: "2 powi ilog2 a = inverse ((2::rat) ^ nat (bitlen n))" .
    have e: "ilog2 a + 1 = - (bitlen n - 1)" by (simp add: il)
    have "2 powi (ilog2 a + 1) = inverse ((2::rat) powi (bitlen n - 1))"
      unfolding e by (rule power_int_minus)
    also have "(2::rat) powi (bitlen n - 1) = 2 ^ nat (bitlen n - 1)"
      using b by (simp add: power_int_def)
    finally have p2: "2 powi (ilog2 a + 1) = inverse ((2::rat) ^ nat (bitlen n - 1))" .
    have "n + 1 \<le> 2 ^ nat (bitlen n)" using hi by simp
    then have "(of_int (n + 1) :: rat) \<le> of_int (2 ^ nat (bitlen n))"
      by (simp only: of_int_le_iff)
    with ny(2) have "y \<le> of_int (2 ^ nat (bitlen n))" by (simp only: of_int_add of_int_1)
    then have "y \<le> 2 ^ nat (bitlen n)" by simp
    then have 1: "2 powi ilog2 a \<le> a"
      unfolding p1 using assms by (simp add: y_def field_simps)
    have "(of_int (2 ^ nat (bitlen n - 1)) :: rat) \<le> of_int n"
      using lo by (simp only: of_int_le_iff)
    from this ny(1) have "of_int (2 ^ nat (bitlen n - 1)) < y" by (rule le_less_trans)
    then have "2 ^ nat (bitlen n - 1) < y" by simp
    then have 2: "a < 2 powi (ilog2 a + 1)"
      unfolding p2 using assms by (simp add: y_def field_simps)
    from 1 2 show ?thesis ..
  qed
  then show "2 powi ilog2 a \<le> a" and "a < 2 powi (ilog2 a + 1)" by simp_all
qed

lemma ilog2_ge: "0 < a \<Longrightarrow> 2 powi k \<le> a \<Longrightarrow> k \<le> ilog2 a"
proof (rule ccontr)
  assume a: "0 < a" "2 powi k \<le> a" and "\<not> k \<le> ilog2 a"
  then have "ilog2 a + 1 \<le> k" by simp
  then have "(2::rat) powi (ilog2 a + 1) \<le> 2 powi k"
    by (intro power_int_increasing) simp_all
  with ilog2_bounds(2) [OF a(1)] a(2) show False by simp
qed

lemma ilog2_less: "0 < a \<Longrightarrow> a < 2 powi k \<Longrightarrow> ilog2 a < k"
proof (rule ccontr)
  assume a: "0 < a" "a < 2 powi k" and "\<not> ilog2 a < k"
  then have "k \<le> ilog2 a" by simp
  then have "(2::rat) powi k \<le> 2 powi ilog2 a"
    by (intro power_int_increasing) simp_all
  with ilog2_bounds(1) [OF a(1)] a(2) show False by simp
qed

lemma round_half_even_bounds:
  "x - 1 / 2 \<le> of_int (round_half_even x)" "of_int (round_half_even x) \<le> x + 1 / 2"
  by (simp add: round_half_even_def; linarith)+

lemma round_half_even_ge: "of_int k \<le> x \<Longrightarrow> k \<le> round_half_even x"
  by (simp add: round_half_even_def; linarith)

lemma round_half_even_le: "x \<le> of_int k \<Longrightarrow> round_half_even x \<le> k"
  by (simp add: round_half_even_def; linarith)


lemma pow2_pos [simp]: "0 < (2::rat) powi k"
  by simp

lemma spacing_normal: "- 1022 \<le> ilog2 a \<Longrightarrow> spacing a = ilog2 a - 52"
  by (simp add: spacing_def)

lemma round_magnitude_le_grid:
  assumes "a \<le> of_int k * 2 powi spacing a"
  shows "round_magnitude a \<le> of_int k * 2 powi spacing a"
proof -
  from assms have "a / 2 powi spacing a \<le> of_int k"
    by (simp add: field_simps)
  then have "round_half_even (a / 2 powi spacing a) \<le> k"
    by (rule round_half_even_le)
  then have "(of_int (round_half_even (a / 2 powi spacing a)) :: rat) \<le> of_int k"
    by (simp only: of_int_le_iff)
  then show ?thesis
    unfolding round_magnitude_def by (rule mult_right_mono) simp
qed

lemma round_magnitude_ge_grid:
  assumes "(of_int k - 1 / 2) * 2 powi spacing a < a"
  shows "of_int k * 2 powi spacing a \<le> round_magnitude a"
proof -
  from assms have "of_int k - 1 / 2 < a / 2 powi spacing a"
    by (simp add: field_simps)
  with round_half_even_bounds(1) [of "a / 2 powi spacing a"]
  have "(of_int (k - 1) :: rat) < of_int (round_half_even (a / 2 powi spacing a))"
    by (simp only: of_int_diff of_int_1; linarith)
  then have "k - 1 < round_half_even (a / 2 powi spacing a)"
    by (simp only: of_int_less_iff)
  then have "k \<le> round_half_even (a / 2 powi spacing a)" by simp
  then have "(of_int k :: rat) \<le> of_int (round_half_even (a / 2 powi spacing a))"
    by (simp only: of_int_le_iff)
  then show ?thesis
    unfolding round_magnitude_def by (rule mult_right_mono) simp
qed

lemma grid_point: "e \<le> 0 \<Longrightarrow> of_int (c * 2 ^ nat (- e)) * 2 powi e = (of_int c :: rat)"
  by (simp add: power_int_def power_one_over)

lemma round_magnitude_normal:
  assumes "0 < a" and "- 1022 \<le> ilog2 a"
  shows "2 powi ilog2 a \<le> round_magnitude a"
proof -
  have sp: "spacing a = ilog2 a - 52" using assms(2) by (rule spacing_normal)
  have "(2::rat) powi ilog2 a = 2 powi (52 + (ilog2 a - 52))"
    by (rule arg_cong [where f = "power_int 2"]) simp
  also have "\<dots> = 2 powi 52 * 2 powi (ilog2 a - 52)" by (rule power_int_add) simp
  finally have g: "(2::rat) powi ilog2 a = of_int (2 ^ 52) * 2 powi spacing a"
    by (simp add: sp)
  have "(of_int (2 ^ 52) - 1 / 2) * 2 powi spacing a < (of_int (2 ^ 52) :: rat) * 2 powi spacing a"
    by (rule mult_strict_right_mono) simp_all
  also have "\<dots> \<le> a" using ilog2_bounds(1) [OF assms(1)] by (simp only: g)
  finally have "of_int (2 ^ 52) * 2 powi spacing a \<le> round_magnitude a"
    by (rule round_magnitude_ge_grid)
  then show ?thesis by (simp only: g)
qed

lemma round_magnitude_upper:
  assumes "0 < a" and "- 1022 \<le> ilog2 a"
  shows "round_magnitude a \<le> 2 powi (ilog2 a + 1)"
proof -
  have sp: "spacing a = ilog2 a - 52" using assms(2) by (rule spacing_normal)
  have "(2::rat) powi (ilog2 a + 1) = 2 powi (53 + (ilog2 a - 52))"
    by (rule arg_cong [where f = "power_int 2"]) simp
  also have "\<dots> = 2 powi 53 * 2 powi (ilog2 a - 52)" by (rule power_int_add) simp
  finally have g: "(2::rat) powi (ilog2 a + 1) = of_int (2 ^ 53) * 2 powi spacing a"
    by (simp add: sp)
  have "a \<le> of_int (2 ^ 53) * 2 powi spacing a"
    using ilog2_bounds(2) [OF assms(1)] by (simp only: g)
  then have "round_magnitude a \<le> of_int (2 ^ 53) * 2 powi spacing a"
    by (rule round_magnitude_le_grid)
  then show ?thesis by (simp only: g)
qed

lemma round_double_normal:
  assumes "0 < q" and "- 1022 \<le> ilog2 q" and "ilog2 q < 1023"
  shows "round_double q = Fin (round_magnitude q)"
proof -
  have "0 < (2::rat) powi ilog2 q" by simp
  also have "\<dots> \<le> round_magnitude q" using assms(1,2) by (rule round_magnitude_normal)
  finally have pos: "0 < round_magnitude q" .
  have "round_magnitude q \<le> 2 powi (ilog2 q + 1)"
    using assms(1,2) by (rule round_magnitude_upper)
  also have "\<dots> < 2 powi 1024"
    using assms(3) by (intro power_int_strict_increasing) simp_all
  finally have "\<not> 2 powi 1024 \<le> round_magnitude q" by simp
  with pos assms(1) show ?thesis by (simp add: round_double_def)
qed


lemma round_magnitude_le_int:
  assumes "0 < a" and "a < 2 powi 53" and "a \<le> of_int c"
  shows "round_magnitude a \<le> of_int c"
proof -
  from assms(1,2) have "ilog2 a < 53" by (rule ilog2_less)
  then have e: "spacing a \<le> 0" by (simp add: spacing_def)
  have "a \<le> of_int (c * 2 ^ nat (- spacing a)) * 2 powi spacing a"
    using assms(3) by (simp only: grid_point [OF e])
  then have "round_magnitude a \<le> of_int (c * 2 ^ nat (- spacing a)) * 2 powi spacing a"
    by (rule round_magnitude_le_grid)
  then show ?thesis by (simp only: grid_point [OF e])
qed

lemma round_magnitude_next:
  assumes k: "- 1022 \<le> k" and G: "2 ^ 52 \<le> G" "G < 2 ^ 53"
    and a: "(of_int G + 1 / 2) * 2 powi (k - 52) < a"
  shows "of_int (G + 1) * 2 powi (k - 52) \<le> round_magnitude a"
proof -
  have pk: "(2::rat) powi k = of_int (2 ^ 52) * 2 powi (k - 52)"
  proof -
    have "(2::rat) powi k = 2 powi (52 + (k - 52))"
      by (rule arg_cong [where f = "power_int 2"]) simp
    also have "\<dots> = 2 powi 52 * 2 powi (k - 52)" by (rule power_int_add) simp
    finally show ?thesis by simp
  qed
  have pk1: "(2::rat) powi (k + 1) = of_int (2 ^ 53) * 2 powi (k - 52)"
  proof -
    have "(2::rat) powi (k + 1) = 2 powi (53 + (k - 52))"
      by (rule arg_cong [where f = "power_int 2"]) simp
    also have "\<dots> = 2 powi 53 * 2 powi (k - 52)" by (rule power_int_add) simp
    finally show ?thesis by simp
  qed
  have "(of_int (2 ^ 52) :: rat) \<le> of_int G" using G(1) by (simp only: of_int_le_iff)
  then have "(of_int (2 ^ 52) :: rat) \<le> of_int G + 1 / 2" by simp
  then have "of_int (2 ^ 52) * 2 powi (k - 52) \<le> (of_int G + 1 / 2) * (2::rat) powi (k - 52)"
    by (rule mult_right_mono) simp
  with a have ka: "2 powi k < a" by (simp only: pk)
  have "0 < (2::rat) powi k" by simp
  from this ka have pos: "0 < a" by (rule less_trans)
  from pos ka have lk: "k \<le> ilog2 a" by (intro ilog2_ge) simp_all
  with k have n: "- 1022 \<le> ilog2 a" by simp
  show ?thesis
  proof (cases "ilog2 a = k")
    case True
    with n have sp: "spacing a = k - 52" by (simp add: spacing_normal)
    have h: "(of_int (G + 1) - 1 / 2 :: rat) = of_int G + 1 / 2" by simp
    have "(of_int (G + 1) - 1 / 2) * 2 powi spacing a < a"
      using a by (simp only: sp h)
    then have "of_int (G + 1) * 2 powi spacing a \<le> round_magnitude a"
      by (rule round_magnitude_ge_grid)
    then show ?thesis by (simp only: sp)
  next
    case False
    with lk have "k + 1 \<le> ilog2 a" by simp
    then have "(2::rat) powi (k + 1) \<le> 2 powi ilog2 a"
      by (intro power_int_increasing) simp_all
    also have "\<dots> \<le> round_magnitude a" using pos n by (rule round_magnitude_normal)
    finally have r: "of_int (2 ^ 53) * 2 powi (k - 52) \<le> round_magnitude a"
      by (simp only: pk1)
    have "G + 1 \<le> 2 ^ 53" using G(2) by simp
    then have "(of_int (G + 1) :: rat) \<le> of_int (2 ^ 53)" by (simp only: of_int_le_iff)
    then have "of_int (G + 1) * 2 powi (k - 52) \<le> (of_int (2 ^ 53) :: rat) * 2 powi (k - 52)"
      by (rule mult_right_mono) simp
    with r show ?thesis by (rule order_trans [rotated])
  qed
qed

lemma round_above_one:
  assumes "1 + 1 / 2 ^ 53 < a"
  shows "1 + 1 / 2 ^ 52 \<le> round_magnitude a"
proof -
  have "(of_int (2 ^ 52) + 1 / 2) * 2 powi (0 - 52) < a"
    using assms by (simp add: power_int_minus field_simps)
  then have "of_int (2 ^ 52 + 1) * 2 powi (0 - 52) \<le> round_magnitude a"
    by (intro round_magnitude_next) simp_all
  then show ?thesis by (simp add: power_int_minus field_simps)
qed

lemma round_above_hundred:
  assumes "100 + 1 / 2 ^ 47 < a"
  shows "100 + 1 / 2 ^ 46 \<le> round_magnitude a"
proof -
  have "(of_int (100 * 2 ^ 46) + 1 / 2) * 2 powi (6 - 52) < a"
    using assms by (simp add: power_int_minus field_simps)
  then have "of_int (100 * 2 ^ 46 + 1) * 2 powi (6 - 52) \<le> round_magnitude a"
    by (intro round_magnitude_next) simp_all
  then show ?thesis by (simp add: power_int_minus field_simps)
qed


lemma js_div_finite:
  "a \<noteq> 0 \<Longrightarrow> b \<noteq> 0 \<Longrightarrow> js_div (Fin a) (Fin b) = round_double (a / b)"
  by (simp add: js_div_def is_zero_def is_infinity_def)

lemma js_mul_finite:
  "a \<noteq> 0 \<Longrightarrow> b \<noteq> 0 \<Longrightarrow> js_mul (Fin a) (Fin b) = round_double (a * b)"
  by (simp add: js_mul_def is_zero_def is_infinity_def)

lemma ratio_percent:
  fixes a b :: rat
  assumes a: "1 \<le> a" "a < 2 ^ 53" and b: "1 \<le> b" "b < 2 ^ 53"
  shows "\<exists>w. js_mul (js_div (Fin a) (Fin b)) (Fin 100) = Fin w \<and>
           0 \<le> w \<and> (a \<le> b \<longrightarrow> w \<le> 100) \<and> (b + 1 \<le> a \<longrightarrow> 100 < w)"
proof -
  define x where "x = a / b"
  have xpos: "0 < x" using a b by (simp add: x_def)
  have xlo: "2 powi (- 53) \<le> x"
  proof -
    have "(1::rat) / 2 ^ 53 \<le> 1 / b" using b by (simp add: field_simps)
    also have "\<dots> \<le> x" using a b by (simp add: x_def field_simps)
    finally show ?thesis by (simp add: power_int_minus field_simps)
  qed
  have xhi: "x < 2 powi 53"
  proof -
    have "x \<le> a" using a b by (simp add: x_def field_simps)
    also have "\<dots> < 2 ^ 53" by (rule a)
    finally show ?thesis by simp
  qed
  have lx: "- 53 \<le> ilog2 x" "ilog2 x < 53"
    using xpos xlo xhi by (auto intro: ilog2_ge ilog2_less)
  define v where "v = round_magnitude x"
  have dv: "js_div (Fin a) (Fin b) = Fin v"
    using a b lx xpos by (simp add: js_div_finite round_double_normal x_def v_def)
  have vlo: "2 powi (- 53) \<le> v"
  proof -
    have "(2::rat) powi (- 53) \<le> 2 powi ilog2 x"
      using lx by (intro power_int_increasing) simp_all
    also have "\<dots> \<le> v" unfolding v_def using xpos lx by (intro round_magnitude_normal) simp_all
    finally show ?thesis .
  qed
  have vhi: "v \<le> 2 powi 53"
  proof -
    have "v \<le> 2 powi (ilog2 x + 1)"
      unfolding v_def using xpos lx by (intro round_magnitude_upper) simp_all
    also have "\<dots> \<le> 2 powi 53" using lx by (intro power_int_increasing) simp_all
    finally show ?thesis .
  qed
  have "(0::rat) < 2 powi (- 53)" by simp
  from this vlo have vpos: "0 < v" by (rule less_le_trans)
  define y where "y = v * 100"
  have ypos: "0 < y" using vpos by (simp add: y_def)
  have ylo: "2 powi (- 53) \<le> y" using vlo vpos by (simp add: y_def)
  have yhi: "y < 2 powi 60"
  proof -
    have "y \<le> 2 powi 53 * 100" using vhi by (simp add: y_def)
    also have "\<dots> < 2 powi 60" by simp
    finally show ?thesis .
  qed
  have ly: "- 53 \<le> ilog2 y" "ilog2 y < 60"
    using ypos ylo yhi by (auto intro: ilog2_ge ilog2_less)
  define w where "w = round_magnitude y"
  have mw: "js_mul (Fin v) (Fin 100) = Fin w"
    using vpos ly ypos by (simp add: js_mul_finite round_double_normal y_def w_def)
  have wpos: "0 \<le> w"
  proof -
    have "0 \<le> (2::rat) powi ilog2 y" by simp
    also have "\<dots> \<le> w" unfolding w_def using ypos ly by (intro round_magnitude_normal) simp_all
    finally show ?thesis .
  qed
  have le: "w \<le> 100" if "a \<le> b"
  proof -
    from that have "x \<le> of_int 1" using b by (simp add: x_def field_simps)
    with xpos xhi have "v \<le> of_int 1" unfolding v_def by (intro round_magnitude_le_int)
    then have y100: "y \<le> of_int 100" by (simp add: y_def)
    then have "y < 2 powi 53" by simp
    with ypos have "w \<le> of_int 100"
      unfolding w_def using y100 by (intro round_magnitude_le_int)
    then show ?thesis by simp
  qed
  have gt: "100 < w" if "b + 1 \<le> a"
  proof -
    have "1 + 1 / b = (b + 1) / b" using b by (simp add: field_simps)
    also have "\<dots> \<le> a / b" using that b by (intro divide_right_mono) simp_all
    finally have "1 + 1 / b \<le> x" by (simp only: x_def)
    moreover have "(1::rat) / 2 ^ 53 < 1 / b" using b by (simp add: field_simps)
    ultimately have "1 + 1 / 2 ^ 53 < x" by simp
    then have "1 + 1 / 2 ^ 52 \<le> v" unfolding v_def by (rule round_above_one)
    then have "100 + 100 / 2 ^ 52 \<le> y" by (simp add: y_def)
    then have "100 + 1 / 2 ^ 47 < y" by simp
    then have "100 + 1 / 2 ^ 46 \<le> w" unfolding w_def by (rule round_above_hundred)
    then show ?thesis by simp
  qed
  from dv mw wpos le gt show ?thesis by auto
qed

lemma count_ratio_percent:
  fixes i j :: int
  assumes i: "0 \<le> i" "i < 2 ^ 53" and j: "0 < j" "j < 2 ^ 53"
  shows "\<exists>w. js_mul (js_div (Fin (of_int i)) (Fin (of_int j))) (Fin 100) = Fin w \<and>
           0 \<le> w \<and> (i \<le> j \<longrightarrow> w \<le> 100) \<and> (j < i \<longrightarrow> 100 < w)"
proof (cases "i = 0")
  case True
  with j have "js_mul (js_div (Fin (of_int i)) (Fin (of_int j))) (Fin 100) = Fin 0"
    by (simp add: js_div_def js_mul_def is_zero_def is_infinity_def signed_zero_def)
  with True j show ?thesis by simp
next
  case False
  with i have ipos: "0 < i" by simp
  have int_bounds: "(1::rat) \<le> of_int n \<and> (of_int n :: rat) < 2 ^ 53"
    if "0 < n" and "n < 2 ^ 53" for n :: int
  proof -
    from that(1) have "1 \<le> n" by simp
    then have "(of_int 1 :: rat) \<le> of_int n" by (simp only: of_int_le_iff)
    moreover from that(2) have "(of_int n :: rat) < of_int (2 ^ 53)"
      by (simp only: of_int_less_iff)
    ultimately show ?thesis by simp
  qed
  from ratio_percent [of "of_int i" "of_int j"] int_bounds [OF j] int_bounds [OF ipos i(2)]
  obtain w where w: "js_mul (js_div (Fin (of_int i)) (Fin (of_int j))) (Fin 100) = Fin w"
    "0 \<le> w" "(of_int i :: rat) \<le> of_int j \<longrightarrow> w \<le> 100"
    "(of_int j :: rat) + 1 \<le> of_int i \<longrightarrow> 100 < w"
    by blast
  have "j < i \<longrightarrow> (of_int j :: rat) + 1 \<le> of_int i"
  proof
    assume "j < i"
    then have "j + 1 \<le> i" by simp
    then have "(of_int (j + 1) :: rat) \<le> of_int i" by (simp only: of_int_le_iff)
    then show "(of_int j :: rat) + 1 \<le> of_int i" by simp
  qed
  moreover have "i \<le> j \<longrightarrow> (of_int i :: rat) \<le> of_int j" by simp
  ultimately show ?thesis using w by blast
qed

text \<open>The sum of results and exceptions.\<close>

lemma and_then_simps:
  "and_then (Inl e) f = Inl e"
  "and_then (Inr x) f = f x"
  by (simp_all add: and_then_def)

text \<open>On a truthy value a property read never throws, so \<^verbatim>\<open>v.p\<close> and \<^verbatim>\<open>v?.p\<close> agree.\<close>

lemma get_truthy: "truthy v \<Longrightarrow> get v p = Inr (get_opt v p)"
  by (cases v) (auto simp: get_opt_def split: option.splits)


lemma set_pending_keeps [simp]:
  "subscription (set_pending m b st) = subscription st"
  "usage (set_pending m b st) = usage st"
  "requests (set_pending m b st) = requests st"
  "invalidated (set_pending m b st) = invalidated st"
  "isCancelling (set_pending m b st) = isCancelling st"
  by (cases m; simp)+

lemma onSuccess_keeps [simp]:
  "subscription (onSuccess m st) = subscription st"
  "usage (onSuccess m st) = usage st"
  "requests (onSuccess m st) = requests st"
  by (cases m; simp add: invalidateQueries_def)+

lemma invalidated_onSuccess:
  "invalidated (onSuccess m st) =
     invalidated st @ [[''subscription''], [''subscription-usage'']]"
  by (cases m) (simp_all add: invalidateQueries_def)

lemma render_subscription_truthy:
  "truthy (subscription st) \<Longrightarrow>
   render_subscription st =
     Inr (CurrentSubscription
       \<lparr>badge_class = getStatusColor (get_opt (subscription st) ''status''),
        badge_icon = getStatusIcon (get_opt (subscription st) ''status''),
        status_text = get_opt (subscription st) ''status'',
        shown_subscription_id = get_opt (subscription st) ''stripe_subscription_id'',
        shown_price_id = get_opt (subscription st) ''price_id'',
        shown_period_start = get_opt (subscription st) ''current_period_start'',
        shown_period_end = get_opt (subscription st) ''current_period_end'',
        cancel_button = fst (render_actions st (get_opt (subscription st) ''status'')),
        reactivate_button = snd (render_actions st (get_opt (subscription st) ''status''))\<rparr>)"
  by (simp add: render_subscription_def get_truthy and_then_simps)

lemma render_subscription_falsy:
  "\<not> truthy (subscription st) \<Longrightarrow> render_subscription st = Inr NoActiveSubscription"
  by (simp add: render_subscription_def)

lemma render_billing_falsy:
  "\<not> truthy (subscription st) \<Longrightarrow> render_billing st = Inr None"
  by (simp add: render_billing_def)

lemma render_billing_string:
  "truthy (subscription st) \<Longrightarrow> get_opt (subscription st) ''status'' = JStr s \<Longrightarrow>
   \<exists>b. render_billing st = Inr (Some b)"
  by (simp add: render_billing_def get_truthy and_then_simps)

text \<open>A present subscription whose status is not a string makes the whole render throw.\<close>

lemma render_billing_not_string:
  "truthy (subscription st) \<Longrightarrow> \<forall>s. get_opt (subscription st) ''status'' \<noteq> JStr s \<Longrightarrow>
   render_billing st = Inl TypeError"
  by (cases "get_opt (subscription st) ''status''")
     (simp_all add: render_billing_def get_truthy and_then_simps)

lemma render_usage_absent:
  "\<not> truthy (get_opt (usage st) ''has_subscription'') \<Longrightarrow> render_usage parse st = Inr None"
  by (simp add: render_usage_def)

lemma render_settled:
  "\<not> subscriptionLoading st \<Longrightarrow> \<not> usageLoading st \<Longrightarrow> subscriptionError st = None \<Longrightarrow>
   render parse st =
     and_then (render_subscription st) (\<lambda>s.
     and_then (render_usage parse st) (\<lambda>u.
     and_then (render_billing st) (\<lambda>b.
       Inr (Layout
         \<lparr>sync_button = \<lparr>disabled = syncPending st, label = ''Sync from Stripe''\<rparr>,
          subscription_part = s, usage_part = u, billing_part = b\<rparr>))))"
  by (simp add: render_def)

text \<open>
  What a failed mutation does keep: no further request is issued, nothing is invalidated,
  the cached data is as before and the mutation's own pending flag has fallen.
\<close>

lemma mutation_failure_keeps_data:
  "requests (settle m (Failed e) st) = requests st \<and>
   invalidated (settle m (Failed e) st) = invalidated st \<and>
   subscription (settle m (Failed e) st) = subscription st \<and>
   usage (settle m (Failed e) st) = usage st \<and>
   \<not> isPending m (settle m (Failed e) st)"
  by (cases m) simp_all

text \<open>
  After a failed cancel the mutation is no longer pending, but \<^verbatim>\<open>isCancelling\<close>, set
  by \<^verbatim>\<open>handleCancel\<close>, is still set.
\<close>

lemma cancel_failure_keeps_isCancelling:
  "truthy (get_opt (subscription st) ''stripe_subscription_id'') \<Longrightarrow>
   isCancelling (settle Cancel (Failed e) (handleCancel st)) \<and>
   \<not> cancelPending (settle Cancel (Failed e) (handleCancel st))"
  by (simp add: handleCancel_def mutate_def)

lemma disabled_query_never_settles:
  "\<not> enabled st \<Longrightarrow> foldl (\<lambda>st out. query_settled out st) st outs = st"
proof (induction outs)
  case Nil
  show ?case by simp
next
  case (Cons out outs)
  then show ?case by (cases out) simp_all
qed

text \<open>
  Once \<^verbatim>\<open>isLoading\<close> has been cleared, the checkout screen shows the failure view on
  an error or a falsy session, and the success view only for a truthy session with no
  error.
\<close>

lemma render_checkout_not_loading:
  assumes "\<not> isLoading st"
  shows "(error st \<noteq> None \<or> \<not> truthy (session st) \<longrightarrow>
            render_checkout parse st = Inr PaymentFailed) \<and>
         (render_checkout parse st = Inr (PaymentSuccessful d) \<longrightarrow>
            error st = None \<and> truthy (session st))"
  using assms by (auto simp: render_checkout_def)

subsection \<open>The usage bar\<close>

text \<open>
  A quotient of two positive doubles, times 100, when neither rounding leaves the range
  of the normal doubles.
\<close>

lemma percent_of_quotient:
  assumes "0 < a" and "0 < b"
    and "- 1022 \<le> ilog2 (a / b)" and "ilog2 (a / b) < 1023"
    and "round_magnitude (a / b) = v"
    and "- 1022 \<le> ilog2 (v * 100)" and "ilog2 (v * 100) < 1023"
    and "round_magnitude (v * 100) = w"
  shows "js_mul (js_div (Fin a) (Fin b)) (Fin 100) = Fin w"
proof -
  from assms(1,2) have q: "0 < a / b" by simp
  from q assms(3,4) have "round_double (a / b) = Fin (round_magnitude (a / b))"
    by (rule round_double_normal)
  with assms(1,2,5) have d: "js_div (Fin a) (Fin b) = Fin v"
    by (simp add: js_div_finite)
  have "0 < (2::rat) powi ilog2 (a / b)" by simp
  also have "\<dots> \<le> round_magnitude (a / b)"
    using q assms(3) by (rule round_magnitude_normal)
  finally have v: "0 < v" by (simp only: assms(5))
  then have p: "0 < v * 100" by simp
  from p assms(6,7) have "round_double (v * 100) = Fin (round_magnitude (v * 100))"
    by (rule round_double_normal)
  with v assms(8) have "js_mul (Fin v) (Fin 100) = Fin w"
    by (simp add: js_mul_finite)
  with d show ?thesis by simp
qed

text \<open>
  0 of 10 is 0%, 5 of 10 is 50%, 8 of 10 is 80%, 12 of 10 is 120%, and 11 of 10 is
  110.00000000000001%: the quotient 1.1 is not a double, and the product of its rounding
  with 100 rounds up.
\<close>

lemma percent_examples:
  "js_mul (js_div (Fin 0) (Fin 10)) (Fin 100) = Fin 0"
  "js_mul (js_div (Fin 5) (Fin 10)) (Fin 100) = Fin 50"
  "js_mul (js_div (Fin 8) (Fin 10)) (Fin 100) = Fin 80"
  "js_mul (js_div (Fin 12) (Fin 10)) (Fin 100) = Fin 120"
  "js_mul (js_div (Fin 11) (Fin 10)) (Fin 100) = Fin (110 + 1 / 2 ^ 46)"
proof -
  show "js_mul (js_div (Fin 0) (Fin 10)) (Fin 100) = Fin 0"
    by (simp add: js_div_def js_mul_def is_zero_def is_infinity_def signed_zero_def)
  show "js_mul (js_div (Fin 5) (Fin 10)) (Fin 100) = Fin 50"
    by (rule percent_of_quotient [where v = "1 / 2"]; code_simp)
  show "js_mul (js_div (Fin 8) (Fin 10)) (Fin 100) = Fin 80"
    by (rule percent_of_quotient [where v = "3602879701896397 / 4503599627370496"]; code_simp)
  show "js_mul (js_div (Fin 12) (Fin 10)) (Fin 100) = Fin 120"
    by (rule percent_of_quotient [where v = "5404319552844595 / 4503599627370496"]; code_simp)
  show "js_mul (js_div (Fin 11) (Fin 10)) (Fin 100) = Fin (110 + 1 / 2 ^ 46)"
    by (rule percent_of_quotient [where v = "2476979795053773 / 2251799813685248"]; code_simp)
qed

text \<open>
  C1, as amended. The width of the usage bar is 100% when the limit is the string
  \<^verbatim>\<open>unlimited\<close>. For every other limit it is the double
  \<^verbatim>\<open>(used / Number(limit)) * 100\<close>, printed as a percentage, and nothing clamps it. For
  whole counts below \<open>2 ^ 53\<close>, with \<open>0 \<le> used\<close> and \<open>0 < limit\<close>, the width
  is a finite percentage that lies between 0 and 100 when \<open>used \<le> limit\<close> and is
  above 100 when \<open>used > limit\<close>.
\<close>

theorem progress_width_unclamped:
  fixes i j :: int
  shows "progress_width parse used (JStr ''unlimited'') = Percent (Fin 100) \<and>
         (limit \<noteq> JStr ''unlimited'' \<longrightarrow>
            progress_width parse used limit =
              template (js_mul (js_div (ToNumber parse used) (ToNumber parse limit)) (Fin 100))) \<and>
         (0 \<le> i \<and> i < 2 ^ 53 \<and> 0 < j \<and> j < 2 ^ 53 \<longrightarrow>
            (\<exists>w. progress_width parse (JNum (Fin (of_int i))) (JNum (Fin (of_int j))) =
                    Percent (Fin w) \<and>
                 0 \<le> w \<and> (i \<le> j \<longrightarrow> w \<le> 100) \<and> (j < i \<longrightarrow> 100 < w)))"
proof (intro conjI impI)
  show "progress_width parse used (JStr ''unlimited'') = Percent (Fin 100)"
    by (simp add: progress_width_def)
next
  assume "limit \<noteq> JStr ''unlimited''"
  then show "progress_width parse used limit =
      template (js_mul (js_div (ToNumber parse used) (ToNumber parse limit)) (Fin 100))"
    by (simp add: progress_width_def)
next
  assume "0 \<le> i \<and> i < 2 ^ 53 \<and> 0 < j \<and> j < 2 ^ 53"
  then obtain w where w: "js_mul (js_div (Fin (of_int i)) (Fin (of_int j))) (Fin 100) = Fin w"
    "0 \<le> w" "i \<le> j \<longrightarrow> w \<le> 100" "j < i \<longrightarrow> 100 < w"
    using count_ratio_percent [of i j] by blast
  from w(1) have "progress_width parse (JNum (Fin (of_int i))) (JNum (Fin (of_int j))) =
      Percent (Fin w)"
    by (simp add: progress_width_def template_def)
  with w(2,3,4) show "\<exists>w. progress_width parse (JNum (Fin (of_int i))) (JNum (Fin (of_int j))) =
      Percent (Fin w) \<and> 0 \<le> w \<and> (i \<le> j \<longrightarrow> w \<le> 100) \<and> (j < i \<longrightarrow> 100 < w)"
    by blast
qed

text \<open>
  5 of unlimited is 100%; 8 of the string \<^verbatim>\<open>'10'\<close> is 80%, with a parser that reads
  that string as 10; 13 of 10 is above 100%.
\<close>

theorem progress_width_unclamped_witness:
  "progress_width (\<lambda>s. if s = ''10'' then Fin 10 else NaN) (JNum (Fin 5)) (JStr ''unlimited'')
     = Percent (Fin 100) \<and>
   progress_width (\<lambda>s. if s = ''10'' then Fin 10 else NaN) (JNum (Fin 8)) (JStr ''10'')
     = Percent (Fin 80) \<and>
   (\<exists>w. progress_width (\<lambda>s. if s = ''10'' then Fin 10 else NaN) (JNum (Fin 13)) (JNum (Fin 10))
           = Percent (Fin w) \<and> 100 < w)"
proof -
  let ?parse = "\<lambda>s. if s = ''10'' then Fin 10 else NaN"
  note t = progress_width_unclamped [of ?parse "JNum (Fin 8)" "JStr ''10''" 13 10]
  from t have "progress_width ?parse (JNum (Fin 5)) (JStr ''unlimited'') = Percent (Fin 100)"
    by (simp add: progress_width_def)
  moreover from t have "progress_width ?parse (JNum (Fin 8)) (JStr ''10'') = Percent (Fin 80)"
    by (simp add: percent_examples template_def)
  moreover from t have "\<exists>w. progress_width ?parse (JNum (Fin 13)) (JNum (Fin 10))
      = Percent (Fin w) \<and> 100 < w"
    by auto
  ultimately show ?thesis by blast
qed

text \<open>12 of 10 is 120%, not 100%.\<close>

theorem progress_width_counterexample:
  "progress_width (\<lambda>s. NaN) (JNum (Fin 12)) (JNum (Fin 10)) = Percent (Fin 120) \<and>
   progress_width (\<lambda>s. NaN) (JNum (Fin 12)) (JNum (Fin 10)) \<noteq> Percent (Fin 100)"
  by (simp add: progress_width_def percent_examples template_def)

subsection \<open>The checkout-success screen without a session id\<close>

text \<open>
  C2. Loaded with no \<^verbatim>\<open>session_id\<close> parameter, the query is disabled, so neither a
  session nor an error ever arrives, the effect never clears \<^verbatim>\<open>isLoading\<close>, and the
  screen shows the loading spinner whatever happens afterwards: it never reaches the
  failure view.
\<close>

theorem no_session_id_stays_loading:
  "render_checkout parse (after_fetches None outcomes) = Inr CheckoutLoading"
proof -
  have m: "mount None =
      \<lparr>sessionId = None, isLoading = True, session = Undefined, error = None\<rparr>"
    by (simp add: mount_def effect_def)
  have "\<not> enabled (mount None)" by (simp add: m enabled_def)
  then have "after_fetches None outcomes = mount None"
    unfolding after_fetches_def by (rule disabled_query_never_settles)
  then show ?thesis by (simp add: m render_checkout_def)
qed

theorem no_session_id_stays_loading_witness:
  "render_checkout (\<lambda>s. NaN) (after_fetches None []) = Inr CheckoutLoading \<and>
   render_checkout (\<lambda>s. NaN) (after_fetches None [Failed ''Not Found'']) \<noteq> Inr PaymentFailed"
  using no_session_id_stays_loading [of "\<lambda>s. NaN" "[]"]
    no_session_id_stays_loading [of "\<lambda>s. NaN" "[Failed ''Not Found'']"]
  by simp

subsection \<open>A failed mutation\<close>

text \<open>
  C3. The subscription \<^verbatim>\<open>sub_123\<close> is active, the user presses Cancel and the request
  fails. \<^verbatim>\<open>handleCancel\<close> has set \<^verbatim>\<open>isCancelling\<close> and only \<^verbatim>\<open>onSuccess\<close> clears it,
  so the Cancel button is rendered disabled after the failure, although the mutation
  is no longer pending.
\<close>

theorem cancel_failure_leaves_button_disabled:
  "\<exists>l c. render (\<lambda>s. NaN)
       (settle Cancel (Failed ''Failed to fetch'')
         (handleCancel
           (usage_settled (Succeeded (JObj [(''has_subscription'', JBool False)]))
             (subscription_settled
               (Succeeded (JObj [(''stripe_subscription_id'', JStr ''sub_123''),
                                 (''status'', JStr ''active'')])) initial))))
       = Inr (Layout l) \<and>
     subscription_part l = CurrentSubscription c \<and>
     cancel_button c = Some \<lparr>disabled = True, label = ''Cancel Subscription''\<rparr>"
  by (simp add: initial_def handleCancel_def mutate_def get_opt_def render_def
      render_subscription_def render_usage_def render_billing_def render_actions_def
      and_then_def getStatusColor_def getStatusIcon_def)

subsection \<open>An absent subscription\<close>

text \<open>
  C4, as amended. When both fetches have settled (neither loading flag is set), the
  subscription query has no error and the subscription data is falsy (JSON \<^verbatim>\<open>null\<close>,
  \<^verbatim>\<open>false\<close>, \<^verbatim>\<open>0\<close> or the empty string), and the usage section renders without
  throwing, the manager renders the "No Active Subscription" call to action, with no
  subscription card (so no Cancel and no Reactivate button) and no billing section. The
  usage section does render without throwing whenever \<^verbatim>\<open>usage?.has_subscription\<close> is
  falsy (absent usage data included), and then there is no usage section.
\<close>

theorem falsy_subscription_renders_call_to_action:
  assumes "\<not> subscriptionLoading st" and "\<not> usageLoading st"
    and "subscriptionError st = None" and "\<not> truthy (subscription st)"
  shows "(\<forall>u. render_usage parse st = Inr u \<longrightarrow>
            render parse st =
              Inr (Layout
                \<lparr>sync_button = \<lparr>disabled = syncPending st, label = ''Sync from Stripe''\<rparr>,
                 subscription_part = NoActiveSubscription,
                 usage_part = u,
                 billing_part = None\<rparr>)) \<and>
         (\<not> truthy (get_opt (usage st) ''has_subscription'') \<longrightarrow>
            render parse st =
              Inr (Layout
                \<lparr>sync_button = \<lparr>disabled = syncPending st, label = ''Sync from Stripe''\<rparr>,
                 subscription_part = NoActiveSubscription,
                 usage_part = None,
                 billing_part = None\<rparr>))"
  using assms
  by (simp add: render_settled render_subscription_falsy render_billing_falsy
      render_usage_absent and_then_simps)

theorem falsy_subscription_renders_call_to_action_witness:
  "render (\<lambda>s. NaN)
     (usage_settled (Succeeded (JObj [(''has_subscription'', JBool False)]))
       (subscription_settled (Succeeded Null) initial))
   = Inr (Layout
       \<lparr>sync_button = \<lparr>disabled = False, label = ''Sync from Stripe''\<rparr>,
        subscription_part = NoActiveSubscription,
        usage_part = None,
        billing_part = None\<rparr>)"
  using falsy_subscription_renders_call_to_action
    [of "usage_settled (Succeeded (JObj [(''has_subscription'', JBool False)]))
           (subscription_settled (Succeeded Null) initial)" "\<lambda>s. NaN"]
  by (simp add: initial_def render_usage_def get_opt_def)

text \<open>
  The object \<^verbatim>\<open>{has_subscription: false}\<close> is truthy: the manager takes the branch of
  a present subscription, and the billing section throws on its missing status.
\<close>

theorem absent_object_counterexample:
  "render (\<lambda>s. NaN)
     (usage_settled (Succeeded (JObj [(''has_subscription'', JBool False)]))
       (subscription_settled (Succeeded (JObj [(''has_subscription'', JBool False)])) initial))
   = Inl TypeError \<and>
   render_subscription
     (usage_settled (Succeeded (JObj [(''has_subscription'', JBool False)]))
       (subscription_settled (Succeeded (JObj [(''has_subscription'', JBool False)])) initial))
   \<noteq> Inr NoActiveSubscription"
  by (simp add: initial_def render_def render_subscription_def render_usage_def
      render_billing_def and_then_def get_opt_def)

subsection \<open>Invalidation after a successful mutation\<close>

text \<open>
  C5. Whichever of the three mutations succeeds, the component calls
  \<^verbatim>\<open>invalidateQueries\<close> with the key \<^verbatim>\<open>['subscription']\<close> and then with the key
  \<^verbatim>\<open>['subscription-usage']\<close>, and with no other key. Both queries of the manager are
  stale afterwards, the checkout-session query is as stale as it was, and the cached
  subscription and usage data are not touched: the view changes only through the
  refetch.
\<close>

theorem success_invalidates_both:
  "invalidated (settle m (Succeeded d) st) =
     invalidated st @ [[''subscription''], [''subscription-usage'']] \<and>
   is_stale (settle m (Succeeded d) st) [''subscription''] \<and>
   is_stale (settle m (Succeeded d) st) [''subscription-usage''] \<and>
   is_stale (settle m (Succeeded d) st) [''checkout-session'', sid] =
     is_stale st [''checkout-session'', sid] \<and>
   subscription (settle m (Succeeded d) st) = subscription st \<and>
   usage (settle m (Succeeded d) st) = usage st"
  by (simp add: invalidated_onSuccess is_stale_def)

subsection \<open>Status colour and icon\<close>

text \<open>
  C6. \<^verbatim>\<open>getStatusColor\<close> and \<^verbatim>\<open>getStatusIcon\<close> return a value for every status (they
  have no failing branch): green for \<^verbatim>\<open>active\<close>, red for \<^verbatim>\<open>canceled\<close>, yellow for
  \<^verbatim>\<open>past_due\<close>, and the gray tokens for every other value, a string or not.
\<close>

theorem status_tokens:
  assumes "status \<noteq> JStr ''active''" and "status \<noteq> JStr ''canceled''"
    and "status \<noteq> JStr ''past_due''"
  shows "getStatusColor (JStr ''active'') = ''text-green-600 bg-green-100'' \<and>
         getStatusIcon (JStr ''active'') = CheckCircle ''w-5 h-5 text-green-500'' \<and>
         getStatusColor (JStr ''canceled'') = ''text-red-600 bg-red-100'' \<and>
         getStatusIcon (JStr ''canceled'') = XCircle ''w-5 h-5 text-red-500'' \<and>
         getStatusColor (JStr ''past_due'') = ''text-yellow-600 bg-yellow-100'' \<and>
         getStatusIcon (JStr ''past_due'') = AlertCircle ''w-5 h-5 text-yellow-500'' \<and>
         getStatusColor status = ''text-gray-600 bg-gray-100'' \<and>
         getStatusIcon status = AlertCircle ''w-5 h-5 text-gray-500''"
  using assms by (simp add: getStatusColor_def getStatusIcon_def)

theorem status_tokens_witness:
  "getStatusColor (JStr ''trialing'') = ''text-gray-600 bg-gray-100'' \<and>
   getStatusIcon (JStr ''trialing'') = AlertCircle ''w-5 h-5 text-gray-500'' \<and>
   getStatusColor Undefined = ''text-gray-600 bg-gray-100''"
  using status_tokens [of "JStr ''trialing''"] status_tokens [of Undefined] by simp

subsection \<open>Action buttons\<close>

text \<open>
  C7. With both fetches settled, no subscription error and a subscription present:
  whenever the manager renders, it renders the subscription card, the card has a Cancel
  button exactly when the status is \<^verbatim>\<open>active\<close> and a Reactivate button exactly when
  the status is \<^verbatim>\<open>canceled\<close>, so no status has both and every other status has
  neither. And it does render when the status is a string and the usage section does
  not throw.
\<close>

theorem actions_follow_status:
  assumes "\<not> subscriptionLoading st" and "\<not> usageLoading st"
    and "subscriptionError st = None" and "truthy (subscription st)"
  shows "(\<forall>v. render parse st = Inr v \<longrightarrow>
            (\<exists>l c. v = Layout l \<and> subscription_part l = CurrentSubscription c \<and>
               (cancel_button c \<noteq> None \<longleftrightarrow>
                  get_opt (subscription st) ''status'' = JStr ''active'') \<and>
               (reactivate_button c \<noteq> None \<longleftrightarrow>
                  get_opt (subscription st) ''status'' = JStr ''canceled''))) \<and>
         ((\<exists>s. get_opt (subscription st) ''status'' = JStr s) \<and>
          (\<exists>u. render_usage parse st = Inr u) \<longrightarrow>
            (\<exists>v. render parse st = Inr v))"
proof (intro conjI allI impI)
  fix v assume r: "render parse st = Inr v"
  from assms r show "\<exists>l c. v = Layout l \<and> subscription_part l = CurrentSubscription c \<and>
      (cancel_button c \<noteq> None \<longleftrightarrow> get_opt (subscription st) ''status'' = JStr ''active'') \<and>
      (reactivate_button c \<noteq> None \<longleftrightarrow>
         get_opt (subscription st) ''status'' = JStr ''canceled'')"
    by (auto simp: render_settled render_subscription_truthy and_then_def render_actions_def
        split: sum.splits)
next
  assume "(\<exists>s. get_opt (subscription st) ''status'' = JStr s) \<and>
          (\<exists>u. render_usage parse st = Inr u)"
  then obtain s u where s: "get_opt (subscription st) ''status'' = JStr s"
    and u: "render_usage parse st = Inr u" by blast
  from render_billing_string [OF assms(4) s] obtain b where
    b: "render_billing st = Inr (Some b)" by blast
  from assms u b show "\<exists>v. render parse st = Inr v"
    by (simp add: render_settled render_subscription_truthy and_then_simps)
qed

text \<open>An active subscription: a Cancel button and no Reactivate button.\<close>

theorem actions_follow_status_witness:
  "\<exists>l c. render (\<lambda>s. NaN)
       (usage_settled (Failed ''Failed to fetch'')
         (subscription_settled
           (Succeeded (JObj [(''stripe_subscription_id'', JStr ''sub_123''),
                             (''status'', JStr ''active'')])) initial)) = Inr (Layout l) \<and>
     subscription_part l = CurrentSubscription c \<and>
     cancel_button c \<noteq> None \<and> reactivate_button c = None"
proof -
  let ?st = "usage_settled (Failed ''Failed to fetch'')
         (subscription_settled
           (Succeeded (JObj [(''stripe_subscription_id'', JStr ''sub_123''),
                             (''status'', JStr ''active'')])) initial)"
  have h: "\<not> subscriptionLoading ?st" "\<not> usageLoading ?st" "subscriptionError ?st = None"
    "truthy (subscription ?st)"
    by (simp_all add: initial_def)
  have s: "get_opt (subscription ?st) ''status'' = JStr ''active''"
    by (simp add: initial_def get_opt_def)
  have u: "\<exists>u. render_usage (\<lambda>s. NaN) ?st = Inr u"
    by (simp add: initial_def render_usage_def get_opt_def)
  note t = actions_follow_status [OF h, of "\<lambda>s. NaN"]
  from t s u obtain v where v: "render (\<lambda>s. NaN) ?st = Inr v" by blast
  with t s show ?thesis by auto
qed

subsection \<open>The cancel request\<close>

text \<open>
  C8. When the subscription's id is \<^verbatim>\<open>sub_123\<close>, \<^verbatim>\<open>handleCancel\<close> issues one request:
  a POST to \<^verbatim>\<open>/api/subscriptions/cancel\<close> with the header
  \<^verbatim>\<open>Content-Type: application/json\<close> and the JSON object
  \<^verbatim>\<open>{"subscription_id":"sub_123"}\<close> as its body. The mutation is pending and
  \<^verbatim>\<open>isCancelling\<close> is set until it settles; on success both are false again.
\<close>

theorem cancel_request_and_pending_flag:
  assumes "get_opt (subscription st) ''stripe_subscription_id'' = JStr ''sub_123''"
  shows "requests (handleCancel st) =
           requests st @
             [\<lparr>http_method = ''POST'', url = ''/api/subscriptions/cancel'',
               headers = [(''Content-Type'', ''application/json'')],
               body = Some (JObj [(''subscription_id'', JStr ''sub_123'')])\<rparr>] \<and>
         cancelPending (handleCancel st) \<and> isCancelling (handleCancel st) \<and>
         \<not> cancelPending (settle Cancel (Succeeded d) (handleCancel st)) \<and>
         \<not> isCancelling (settle Cancel (Succeeded d) (handleCancel st))"
  using assms by (simp add: handleCancel_def mutate_def invalidateQueries_def)

theorem cancel_request_and_pending_flag_witness:
  "requests (handleCancel
     (usage_settled (Failed ''Failed to fetch'')
       (subscription_settled
         (Succeeded (JObj [(''stripe_subscription_id'', JStr ''sub_123''),
                           (''status'', JStr ''active'')])) initial))) =
     [\<lparr>http_method = ''POST'', url = ''/api/subscriptions/cancel'',
       headers = [(''Content-Type'', ''application/json'')],
       body = Some (JObj [(''subscription_id'', JStr ''sub_123'')])\<rparr>]"
  using cancel_request_and_pending_flag
    [of "usage_settled (Failed ''Failed to fetch'')
       (subscription_settled
         (Succeeded (JObj [(''stripe_subscription_id'', JStr ''sub_123''),
                           (''status'', JStr ''active'')])) initial)"]
  by (simp add: initial_def get_opt_def)

subsection \<open>The error view of the manager\<close>




subsection \<open>The checkout-success screen with a falsy session\<close>

text \<open>
  C10. The first fetch of the session resolves, without an error, to a falsy value
  (JSON \<^verbatim>\<open>null\<close>, \<^verbatim>\<open>false\<close>, \<^verbatim>\<open>0\<close> or the empty string). The effect clears
  \<^verbatim>\<open>isLoading\<close> only for a truthy session or an error, so the screen shows the loading
  spinner, not the failure view.
\<close>

theorem falsy_session_stays_loading:
  assumes "\<not> truthy d" and "d \<noteq> Undefined"
  shows "render_checkout parse (after_fetches sid [Succeeded d]) = Inr CheckoutLoading"
  using assms
  by (simp add: after_fetches_def mount_def effect_def render_checkout_def)

theorem falsy_session_stays_loading_witness:
  "render_checkout (\<lambda>s. NaN) (after_fetches (Some ''cs_test_1'') [Succeeded Null])
     = Inr CheckoutLoading \<and>
   session (after_fetches (Some ''cs_test_1'') [Succeeded Null]) = Null \<and>
   error (after_fetches (Some ''cs_test_1'') [Succeeded Null]) = None"
  using falsy_session_stays_loading [of Null "\<lambda>s. NaN" "Some ''cs_test_1''"]
  by (simp add: after_fetches_def mount_def effect_def enabled_def)

end
